theory Spec2Isabelle
  imports Complex_Main "HOL-Library.Finite_Map" "HOL-Library.Word" "HOL-Library.Sublist"
begin

section \<open>The register mapper: registers/mapper/main.go\<close>

text \<open>
  The mapper reads the leaves of a Trillian log and folds them into one record per key
  in a Trillian map. This theory embeds \<^verbatim>\<open>main.go\<close> function by function. What the
  program calls but does not define (the JSON codec, SHA-256, the RFC 3339 parser and the
  Trillian map client) is a field of a record of functions that every embedded function
  takes, so every theorem holds for any codec, hash, parser and map service.
  Diagnostic output (\<^verbatim>\<open>fmt.Printf\<close>, \<^verbatim>\<open>log.Printf\<close>) is not modelled.
\<close>

subsection \<open>Go values\<close>

text \<open>
  A byte slice and a Go string are both sequences of bytes: \<^typ>\<open>string\<close>.
  An \<^verbatim>\<open>interface{}\<close> holding a decoded JSON value is an \<open>iface\<close>. A Go map and a Go
  slice may be nil, and \<^verbatim>\<open>reflect.DeepEqual\<close> tells a nil map from an empty one, so both
  are options (\<open>None\<close> is nil). A finite float64 is the real number it denotes; the type
  has no NaN, which JSON cannot express. On these values \<^verbatim>\<open>reflect.DeepEqual\<close> is
  equality.
\<close>

type_synonym bytes = string
type_synonym error = string
type_synonym time = int

datatype iface =
    INil
  | IBool bool
  | IFloat64 real
  | IString string
  | ISlice "iface list option"
  | IMap "(string, iface) fmap option"

type_synonym gomap = "(string, iface) fmap option"

text \<open>\<^verbatim>\<open>m[k]\<close>: a nil map and a missing key both read as the nil interface.\<close>

definition index_map :: "gomap \<Rightarrow> string \<Rightarrow> iface" where
  "index_map m k =
     (case m of
        None \<Rightarrow> INil
      | Some f \<Rightarrow> (case fmlookup f k of None \<Rightarrow> INil | Some v \<Rightarrow> v))"

text \<open>
  The one-result type assertions \<^verbatim>\<open>x.(string)\<close> and \<^verbatim>\<open>x.(map[string]interface{})\<close>:
  \<open>None\<close> is the run-time panic of a failed assertion.
\<close>

definition assert_string :: "iface \<Rightarrow> string option" where
  "assert_string x = (case x of IString s \<Rightarrow> Some s | _ \<Rightarrow> None)"

definition assert_map :: "iface \<Rightarrow> gomap option" where
  "assert_map x = (case x of IMap m \<Rightarrow> Some m | _ \<Rightarrow> None)"

text \<open>How a call ends: it returns, it panics, or \<^verbatim>\<open>log.Fatalf\<close> exits the process.\<close>

datatype panic = IndexOutOfRange | NilDereference | InterfaceConversion

datatype 'a exec = Return 'a | Panic panic | Fatal

subsection \<open>The record of a key (lines 25 to 38)\<close>

record Record =
  Entry :: gomap
  Items :: "gomap list"

text \<open>The loop of \<^verbatim>\<open>add\<close>: is some element of the slice deeply equal to \<open>i\<close>?\<close>

fun add_loop :: "gomap \<Rightarrow> gomap list \<Rightarrow> bool" where
  "add_loop i [] = False"
| "add_loop i (ii # rest) = (if i = ii then True else add_loop i rest)"

definition record_add :: "Record \<Rightarrow> gomap \<Rightarrow> Record" where
  "record_add r i = (if add_loop i (Items r) then r else r\<lparr>Items := Items r @ [i]\<rparr>)"

subsection \<open>The Trillian map and the libraries\<close>

text \<open>
  The protocol messages, with the fields the program reads or writes. A message field and
  an element of a repeated message field are pointers in Go, so they are options here.
  Field names are the Go names, prefixed where two messages share one.
\<close>

record MapLeaf =
  Index :: bytes
  LeafValue :: bytes

record LogLeaf =
  LogLeaf_LeafValue :: bytes

record SetMapLeavesRequest =
  Set_MapId :: "64 word"
  Leaves :: "MapLeaf list"

record GetMapLeavesRequest =
  Get_MapId :: "64 word"
  Get_Index :: "bytes list"

record MapLeafInclusion =
  Leaf :: "MapLeaf option"

record GetMapLeavesResponse =
  MapLeafInclusion :: "MapLeafInclusion option list"

text \<open>
  The map client is any pair of functions on a state \<open>'w\<close> of the map service. The
  program's state is that state and the calls issued so far, oldest first.
\<close>

record 'w TrillianMapClient =
  GetLeaves :: "GetMapLeavesRequest \<Rightarrow> 'w \<Rightarrow> (error + GetMapLeavesResponse) \<times> 'w"
  SetLeaves :: "SetMapLeavesRequest \<Rightarrow> 'w \<Rightarrow> error option \<times> 'w"

datatype rpc = GetLeavesCall GetMapLeavesRequest | SetLeavesCall SetMapLeavesRequest

record 'w state =
  world :: 'w
  rpcs :: "rpc list"

record 'w mapInfo =
  mapID :: "64 word"
  tc :: "'w TrillianMapClient"

text \<open>
  The library functions, each at the one type the program uses it at:
  \<^verbatim>\<open>json.Unmarshal\<close> into a nil \<^verbatim>\<open>map[string]interface{}\<close> and into a zero \<^verbatim>\<open>record\<close>,
  \<^verbatim>\<open>json.Marshal\<close> of a \<^verbatim>\<open>*record\<close>, \<^verbatim>\<open>sha256.Sum256\<close>, and \<^verbatim>\<open>time.Parse\<close> with the layout
  \<^verbatim>\<open>time.RFC3339\<close>, whose result is an instant.
\<close>

record golib =
  json_Unmarshal_map :: "bytes \<Rightarrow> error + gomap"
  json_Unmarshal_record :: "bytes \<Rightarrow> error + Record"
  json_Marshal :: "Record \<Rightarrow> error + bytes"
  sha256_Sum256 :: "bytes \<Rightarrow> bytes"
  time_Parse :: "string \<Rightarrow> error + time"

definition call_GetLeaves ::
  "'w mapInfo \<Rightarrow> GetMapLeavesRequest \<Rightarrow> 'w state \<Rightarrow> (error + GetMapLeavesResponse) \<times> 'w state" where
  "call_GetLeaves mi req st =
     (case GetLeaves (tc mi) req (world st) of
        (res, w') \<Rightarrow> (res, \<lparr>world = w', rpcs = rpcs st @ [GetLeavesCall req]\<rparr>))"

definition call_SetLeaves ::
  "'w mapInfo \<Rightarrow> SetMapLeavesRequest \<Rightarrow> 'w state \<Rightarrow> error option \<times> 'w state" where
  "call_SetLeaves mi req st =
     (case SetLeaves (tc mi) req (world st) of
        (res, w') \<Rightarrow> (res, \<lparr>world = w', rpcs = rpcs st @ [SetLeavesCall req]\<rparr>))"

subsection \<open>The record store (lines 51 to 119)\<close>

definition mapInfo_saveRecord ::
  "golib \<Rightarrow> 'w mapInfo \<Rightarrow> string \<Rightarrow> Record \<Rightarrow> 'w state \<Rightarrow> unit exec \<times> 'w state" where
  "mapInfo_saveRecord lib mi key val st =
     (case json_Marshal lib val of
        Inl err \<Rightarrow> (Fatal, st)
      | Inr v \<Rightarrow>
          (let l = \<lparr>Index = sha256_Sum256 lib key, LeafValue = v\<rparr>;
               req = \<lparr>Set_MapId = mapID mi, Leaves = [l]\<rparr>
           in case call_SetLeaves mi req st of
                (Some err, st') \<Rightarrow> (Fatal, st')
              | (None, st') \<Rightarrow> (Return (), st')))"

definition mapInfo_createRecord ::
  "golib \<Rightarrow> 'w mapInfo \<Rightarrow> string \<Rightarrow> gomap \<Rightarrow> gomap \<Rightarrow> 'w state \<Rightarrow> unit exec \<times> 'w state" where
  "mapInfo_createRecord lib mi key entry item st =
     (let ii = [item] in mapInfo_saveRecord lib mi key \<lparr>Entry = entry, Items = ii\<rparr> st)"

text \<open>
  \<^verbatim>\<open>getLeaf\<close> returns \<^verbatim>\<open>(*record, error)\<close>: \<open>Inl err\<close> is \<^verbatim>\<open>(nil, err)\<close>, \<open>Inr None\<close> is
  \<^verbatim>\<open>(nil, nil)\<close> and \<open>Inr (Some r)\<close> is \<^verbatim>\<open>(&r, nil)\<close>.
\<close>

definition mapInfo_getLeaf ::
  "golib \<Rightarrow> 'w mapInfo \<Rightarrow> string \<Rightarrow> 'w state \<Rightarrow> (error + Record option) exec \<times> 'w state" where
  "mapInfo_getLeaf lib mi key st =
     (let index = [sha256_Sum256 lib key];
          req = \<lparr>Get_MapId = mapID mi, Get_Index = index\<rparr>
      in case call_GetLeaves mi req st of
           (Inl err, st') \<Rightarrow> (Return (Inl err), st')
         | (Inr resp, st') \<Rightarrow>
             (case MapLeafInclusion resp of
                [] \<Rightarrow> (Panic IndexOutOfRange, st')
              | None # _ \<Rightarrow> (Panic NilDereference, st')
              | Some inc # _ \<Rightarrow>
                  (case Leaf inc of
                     None \<Rightarrow> (Panic NilDereference, st')
                   | Some lf \<Rightarrow>
                       (let l = LeafValue lf
                        in if length l = 0 then (Return (Inr None), st')
                           else (case json_Unmarshal_record lib l of
                                   Inl err \<Rightarrow> (Return (Inl err), st')
                                 | Inr r \<Rightarrow> (Return (Inr (Some r)), st'))))))"

definition mapInfo_get ::
  "golib \<Rightarrow> 'w mapInfo \<Rightarrow> string \<Rightarrow> 'w state \<Rightarrow> (error + Record option) exec \<times> 'w state" where
  "mapInfo_get lib mi key st =
     (case mapInfo_getLeaf lib mi key st of
        (Return (Inl err), st') \<Rightarrow> (Return (Inl err), st')
      | (Return (Inr None), st') \<Rightarrow> (Return (Inr None), st')
      | (Return (Inr (Some r)), st') \<Rightarrow> (Return (Inr (Some r)), st')
      | (Panic p, st') \<Rightarrow> (Panic p, st')
      | (Fatal, st') \<Rightarrow> (Fatal, st'))"

subsection \<open>The scanner (lines 125 to 169)\<close>

text \<open>
  \<^verbatim>\<open>Leaf\<close> returns an \<^verbatim>\<open>error\<close>: \<open>Return None\<close> is \<^verbatim>\<open>return nil\<close>. The second half of
  the function, from the call of \<^verbatim>\<open>get\<close> on, is \<open>logScanner_Leaf_from_get\<close>: it runs once
  \<open>e\<close>, \<open>t\<close>, \<open>k\<close> and \<open>i\<close> are bound.
\<close>

definition after_save :: "unit exec \<times> 'w state \<Rightarrow> error option exec \<times> 'w state" where
  "after_save x =
     (case x of
        (Return u, st') \<Rightarrow> (Return None, st')
      | (Panic p, st') \<Rightarrow> (Panic p, st')
      | (Fatal, st') \<Rightarrow> (Fatal, st'))"

definition logScanner_Leaf_from_get ::
  "golib \<Rightarrow> 'w mapInfo \<Rightarrow> gomap \<Rightarrow> time \<Rightarrow> string \<Rightarrow> gomap \<Rightarrow> 'w state
     \<Rightarrow> error option exec \<times> 'w state" where
  "logScanner_Leaf_from_get lib mi e t k i st =
     (case mapInfo_get lib mi k st of
        (Panic p, st') \<Rightarrow> (Panic p, st')
      | (Fatal, st') \<Rightarrow> (Fatal, st')
      | (Return (Inl err), st') \<Rightarrow> (Return (Some err), st')
      | (Return (Inr None), st') \<Rightarrow> after_save (mapInfo_createRecord lib mi k e i st')
      | (Return (Inr (Some cr)), st') \<Rightarrow>
          (case assert_string (index_map (Entry cr) ''entry-timestamp'') of
             None \<Rightarrow> (Panic InterfaceConversion, st')
           | Some cts \<Rightarrow>
               (case time_Parse lib cts of
                  Inl err \<Rightarrow> (Return (Some err), st')
                | Inr ct \<Rightarrow>
                    if t < ct then (Return None, st')
                    else if ct < t then after_save (mapInfo_createRecord lib mi k e i st')
                    else after_save (mapInfo_saveRecord lib mi k (record_add cr i) st'))))"

definition logScanner_Leaf ::
  "golib \<Rightarrow> 'w mapInfo \<Rightarrow> LogLeaf \<Rightarrow> 'w state \<Rightarrow> error option exec \<times> 'w state" where
  "logScanner_Leaf lib mi leaf st =
     (case json_Unmarshal_map lib (LogLeaf_LeafValue leaf) of
        Inl err \<Rightarrow> (Return (Some err), st)
      | Inr l \<Rightarrow>
          (case assert_map (index_map l ''Entry'') of
             None \<Rightarrow> (Panic InterfaceConversion, st)
           | Some e \<Rightarrow>
               (case assert_string (index_map e ''entry-timestamp'') of
                  None \<Rightarrow> (Panic InterfaceConversion, st)
                | Some ts \<Rightarrow>
                    (case time_Parse lib ts of
                       Inl err \<Rightarrow> (Return (Some err), st)
                     | Inr t \<Rightarrow>
                         (case assert_string (index_map e ''key'') of
                            None \<Rightarrow> (Panic InterfaceConversion, st)
                          | Some k \<Rightarrow>
                              (case assert_map (index_map l ''Item'') of
                                 None \<Rightarrow> (Panic InterfaceConversion, st)
                               | Some i \<Rightarrow> logScanner_Leaf_from_get lib mi e t k i st))))))"

subsection \<open>The driver's loop and the backing map\<close>

text \<open>
  Modelled from the spec: the loop of \<^verbatim>\<open>trillian_client.Scan\<close>, of the package
  \<^verbatim>\<open>registers/trillian_client\<close>, which is not among the sources. Section 4.3 of the
  specification has it hand the leaves to \<^verbatim>\<open>Leaf\<close> one at a time, in log order, and stop
  at the first leaf that fails.
\<close>

fun Scan ::
  "golib \<Rightarrow> 'w mapInfo \<Rightarrow> LogLeaf list \<Rightarrow> 'w state \<Rightarrow> error option exec \<times> 'w state" where
  "Scan lib mi [] st = (Return None, st)"
| "Scan lib mi (leaf # rest) st =
     (case logScanner_Leaf lib mi leaf st of
        (Return None, st') \<Rightarrow> Scan lib mi rest st'
      | (Return (Some err), st') \<Rightarrow> (Return (Some err), st')
      | (Panic p, st') \<Rightarrow> (Panic p, st')
      | (Fatal, st') \<Rightarrow> (Fatal, st'))"

text \<open>
  Modelled from the spec: the map service behind \<^verbatim>\<open>trillian.TrillianMapClient\<close>, which
  the program only calls. Section 6 of the specification: \<^verbatim>\<open>SetLeaves\<close> upserts the
  given index/value pairs, and \<^verbatim>\<open>GetLeaves\<close> returns, for each index asked for, an
  inclusion that embeds the value bytes, empty if the index was never written. The state
  of the service is the map from index to value; neither call fails.
\<close>

type_synonym store = "bytes \<rightharpoonup> bytes"

definition mem_GetLeaves ::
  "GetMapLeavesRequest \<Rightarrow> store \<Rightarrow> (error + GetMapLeavesResponse) \<times> store" where
  "mem_GetLeaves req w =
     (Inr \<lparr>MapLeafInclusion =
             map (\<lambda>ix. Some \<lparr>Leaf = Some \<lparr>Index = ix,
                                          LeafValue = (case w ix of None \<Rightarrow> [] | Some v \<Rightarrow> v)\<rparr>\<rparr>)
               (Get_Index req)\<rparr>,
      w)"

fun upsert :: "MapLeaf list \<Rightarrow> store \<Rightarrow> store" where
  "upsert [] w = w"
| "upsert (l # ls) w = upsert ls (w(Index l \<mapsto> LeafValue l))"

definition mem_SetLeaves :: "SetMapLeavesRequest \<Rightarrow> store \<Rightarrow> error option \<times> store" where
  "mem_SetLeaves req w = (None, upsert (Leaves req) w)"

definition mem_client :: "store TrillianMapClient" where
  "mem_client = \<lparr>GetLeaves = mem_GetLeaves, SetLeaves = mem_SetLeaves\<rparr>"

definition mem_info :: "64 word \<Rightarrow> store mapInfo" where
  "mem_info n = \<lparr>mapID = n, tc = mem_client\<rparr>"

subsection \<open>Vocabulary of the statements\<close>

text \<open>
  The timestamp of an entry, when the entry has a string under \<^verbatim>\<open>entry-timestamp\<close> that
  parses; the two steps are those of lines 132 and 150.
\<close>

definition entry_timestamp :: "golib \<Rightarrow> gomap \<Rightarrow> time option" where
  "entry_timestamp lib e =
     (case assert_string (index_map e ''entry-timestamp'') of
        None \<Rightarrow> None
      | Some s \<Rightarrow> (case time_Parse lib s of Inl err \<Rightarrow> None | Inr t \<Rightarrow> Some t))"

text \<open>
  A leaf is a well-formed observation of entry \<open>e\<close>, with timestamp \<open>t\<close> and key \<open>k\<close>,
  and of item \<open>i\<close>, when lines 126 to 138 bind these values.
\<close>

definition observes :: "golib \<Rightarrow> LogLeaf \<Rightarrow> gomap \<Rightarrow> time \<Rightarrow> string \<Rightarrow> gomap \<Rightarrow> bool" where
  "observes lib leaf e t k i =
     (case json_Unmarshal_map lib (LogLeaf_LeafValue leaf) of
        Inl err \<Rightarrow> False
      | Inr l \<Rightarrow>
          index_map l ''Entry'' = IMap e \<and> entry_timestamp lib e = Some t \<and>
          index_map e ''key'' = IString k \<and> index_map l ''Item'' = IMap i)"

text \<open>The request that \<^verbatim>\<open>getLeaf\<close> sends for a key, and the one \<^verbatim>\<open>saveRecord\<close> sends.\<close>

definition read_of :: "golib \<Rightarrow> 'w mapInfo \<Rightarrow> string \<Rightarrow> GetMapLeavesRequest" where
  "read_of lib mi k = \<lparr>Get_MapId = mapID mi, Get_Index = [sha256_Sum256 lib k]\<rparr>"

definition write_of :: "golib \<Rightarrow> 'w mapInfo \<Rightarrow> string \<Rightarrow> bytes \<Rightarrow> SetMapLeavesRequest" where
  "write_of lib mi k v =
     \<lparr>Set_MapId = mapID mi, Leaves = [\<lparr>Index = sha256_Sum256 lib k, LeafValue = v\<rparr>]\<rparr>"

text \<open>
  A call that started in state \<open>st\<close> and ended as \<open>res\<close> persisted the record \<open>r\<close> under
  the key \<open>k\<close>: the record was serialised, exactly one \<^verbatim>\<open>SetLeaves\<close> call was issued, with
  the serialised record at the key's index, the map service is where that call left it,
  and the call returned nil unless the write failed.
\<close>

definition persisted ::
  "golib \<Rightarrow> 'w mapInfo \<Rightarrow> string \<Rightarrow> Record \<Rightarrow> 'w state \<Rightarrow> error option exec \<times> 'w state \<Rightarrow> bool" where
  "persisted lib mi k r st res =
     (case json_Marshal lib r of
        Inl err \<Rightarrow> False
      | Inr v \<Rightarrow>
          (case SetLeaves (tc mi) (write_of lib mi k v) (world st) of
             (err, w') \<Rightarrow>
               fst res = (case err of None \<Rightarrow> Return None | Some x \<Rightarrow> Fatal) \<and>
               world (snd res) = w' \<and>
               rpcs (snd res) = rpcs st @ [SetLeavesCall (write_of lib mi k v)]))"

text \<open>
  The law of the JSON codec that replaying a log rests on: what \<^verbatim>\<open>json.Marshal\<close> writes
  for a record is not empty, and \<^verbatim>\<open>json.Unmarshal\<close> reads it back as that record.
\<close>

definition roundtrips :: "golib \<Rightarrow> bool" where
  "roundtrips lib \<longleftrightarrow>
     (\<forall>r v. json_Marshal lib r = Inr v \<longrightarrow> v \<noteq> [] \<and> json_Unmarshal_record lib v = Inr r)"

text \<open>
  A store has absorbed a leaf when reconciling the leaf again changes nothing: the
  record at the index of the leaf's key is later than the leaf, or it is as old as the
  leaf, holds the leaf's item, and is stored in the form the codec writes.
\<close>

definition absorbed :: "golib \<Rightarrow> store \<Rightarrow> LogLeaf \<Rightarrow> bool" where
  "absorbed lib w leaf \<longleftrightarrow>
     (\<exists>e t k i v cr ct.
        observes lib leaf e t k i \<and> w (sha256_Sum256 lib k) = Some v \<and> v \<noteq> [] \<and>
        json_Unmarshal_record lib v = Inr cr \<and> entry_timestamp lib (Entry cr) = Some ct \<and>
        (t < ct \<or> t = ct \<and> i \<in> set (Items cr) \<and> json_Marshal lib cr = Inr v))"

text \<open>
  What one successful call of \<^verbatim>\<open>Leaf\<close> on the observation \<open>(e, t, k, i)\<close> makes of the
  in-memory store \<open>w\<close>: with nothing (or the empty value) at the index of \<open>k\<close> it stores the
  new record; with a record there it leaves the store alone, stores the new record, or
  stores the merged record, as \<open>t\<close> is before, after, or at the record's timestamp.
\<close>

definition reconciled ::
  "golib \<Rightarrow> gomap \<Rightarrow> time \<Rightarrow> string \<Rightarrow> gomap \<Rightarrow> store \<Rightarrow> store \<Rightarrow> bool" where
  "reconciled lib e t k i w w' \<longleftrightarrow>
     (case w (sha256_Sum256 lib k) of None \<Rightarrow> [] | Some v \<Rightarrow> v) = [] \<and>
       (\<exists>v. json_Marshal lib \<lparr>Entry = e, Items = [i]\<rparr> = Inr v \<and>
            w' = w(sha256_Sum256 lib k \<mapsto> v)) \<or>
     (\<exists>v0 cr ct.
        w (sha256_Sum256 lib k) = Some v0 \<and> v0 \<noteq> [] \<and>
        json_Unmarshal_record lib v0 = Inr cr \<and> entry_timestamp lib (Entry cr) = Some ct \<and>
        (t < ct \<and> w' = w \<or>
         ct < t \<and> (\<exists>v. json_Marshal lib \<lparr>Entry = e, Items = [i]\<rparr> = Inr v \<and>
                      w' = w(sha256_Sum256 lib k \<mapsto> v)) \<or>
         t = ct \<and> (\<exists>v. json_Marshal lib (record_add cr i) = Inr v \<and>
                      w' = w(sha256_Sum256 lib k \<mapsto> v))))"

subsection \<open>A small world to run the program in\<close>

text \<open>
  The log of the specification's end-to-end example: four leaves for the key \<^verbatim>\<open>k1\<close>,
  observed in 2020 with the items \<^verbatim>\<open>{v: 1}\<close> and \<^verbatim>\<open>{v: 2}\<close>, in 2019 with \<^verbatim>\<open>{v: 99}\<close> and
  in 2021 with \<^verbatim>\<open>{v: 3}\<close>; then a fifth leaf whose entry has a timestamp and no key, a
  sixth whose timestamp is not a date, and a seventh whose entry has a key and no
  timestamp. The libraries of this world are tables: the codec knows these seven payloads
  and the three records the example stores, the parser knows the three timestamps (as
  seconds since 1970), and the hash prefixes its argument. Every payload and timestamp
  outside the tables is an error.
\<close>

definition example_entry :: "string \<Rightarrow> gomap" where
  "example_entry ts =
     Some (fmap_of_list [(''key'', IString ''k1''), (''entry-timestamp'', IString ts)])"

definition example_item :: "real \<Rightarrow> gomap" where
  "example_item n = Some (fmap_of_list [(''v'', IFloat64 n)])"

definition example_payload :: "gomap \<Rightarrow> gomap \<Rightarrow> gomap" where
  "example_payload e i = Some (fmap_of_list [(''Entry'', IMap e), (''Item'', IMap i)])"

definition entry_without_key :: gomap where
  "entry_without_key = Some (fmap_of_list [(''entry-timestamp'', IString ''2020-01-01T00:00:00Z'')])"

definition entry_without_timestamp :: gomap where
  "entry_without_timestamp = Some (fmap_of_list [(''key'', IString ''k1'')])"

definition example_Unmarshal_map :: "bytes \<Rightarrow> error + gomap" where
  "example_Unmarshal_map b =
     (if b = ''leaf1'' then Inr (example_payload (example_entry ''2020-01-01T00:00:00Z'') (example_item 1))
      else if b = ''leaf2'' then Inr (example_payload (example_entry ''2020-01-01T00:00:00Z'') (example_item 2))
      else if b = ''leaf3'' then Inr (example_payload (example_entry ''2019-01-01T00:00:00Z'') (example_item 99))
      else if b = ''leaf4'' then Inr (example_payload (example_entry ''2021-01-01T00:00:00Z'') (example_item 3))
      else if b = ''leaf5'' then Inr (example_payload entry_without_key (example_item 5))
      else if b = ''leaf6'' then Inr (example_payload (example_entry ''yesterday'') (example_item 6))
      else if b = ''leaf7'' then Inr (example_payload entry_without_timestamp (example_item 7))
      else Inl ''invalid character'')"

definition example_Parse :: "string \<Rightarrow> error + time" where
  "example_Parse s =
     (if s = ''2019-01-01T00:00:00Z'' then Inr 1546300800
      else if s = ''2020-01-01T00:00:00Z'' then Inr 1577836800
      else if s = ''2021-01-01T00:00:00Z'' then Inr 1609459200
      else Inl ''cannot parse'')"

definition record_2020_1 :: Record where
  "record_2020_1 = \<lparr>Entry = example_entry ''2020-01-01T00:00:00Z'', Items = [example_item 1]\<rparr>"

definition record_2020_1_2 :: Record where
  "record_2020_1_2 =
     \<lparr>Entry = example_entry ''2020-01-01T00:00:00Z'', Items = [example_item 1, example_item 2]\<rparr>"

definition record_2021_3 :: Record where
  "record_2021_3 = \<lparr>Entry = example_entry ''2021-01-01T00:00:00Z'', Items = [example_item 3]\<rparr>"

definition example_Marshal :: "Record \<Rightarrow> error + bytes" where
  "example_Marshal r =
     (if r = record_2020_1 then Inr ''record-2020-1''
      else if r = record_2020_1_2 then Inr ''record-2020-1-2''
      else if r = record_2021_3 then Inr ''record-2021-3''
      else Inl ''unsupported value'')"

definition example_Unmarshal_record :: "bytes \<Rightarrow> error + Record" where
  "example_Unmarshal_record b =
     (if b = ''record-2020-1'' then Inr record_2020_1
      else if b = ''record-2020-1-2'' then Inr record_2020_1_2
      else if b = ''record-2021-3'' then Inr record_2021_3
      else Inl ''invalid character'')"

definition example_lib :: golib where
  "example_lib =
     \<lparr>json_Unmarshal_map = example_Unmarshal_map,
      json_Unmarshal_record = example_Unmarshal_record,
      json_Marshal = example_Marshal,
      sha256_Sum256 = (\<lambda>k. ''sha256:'' @ k),
      time_Parse = example_Parse\<rparr>"

definition leaf_of :: "bytes \<Rightarrow> LogLeaf" where
  "leaf_of b = \<lparr>LogLeaf_LeafValue = b\<rparr>"

definition fresh :: "'w \<Rightarrow> 'w state" where
  "fresh w = \<lparr>world = w, rpcs = []\<rparr>"

text \<open>The log of the end-to-end example, in log order.\<close>

definition example_log :: "LogLeaf list" where
  "example_log = [leaf_of ''leaf1'', leaf_of ''leaf2'', leaf_of ''leaf3'', leaf_of ''leaf4'']"

text \<open>A map client that answers every read with no inclusion at all.\<close>

definition silent_client :: "store TrillianMapClient" where
  "silent_client =
     \<lparr>GetLeaves = (\<lambda>req w. (Inr \<lparr>MapLeafInclusion = []\<rparr>, w)), SetLeaves = mem_SetLeaves\<rparr>"

section \<open>Properties\<close>

subsection \<open>What each function does to the state\<close>

lemma add_loop_iff: "add_loop i xs \<longleftrightarrow> i \<in> set xs"
  by (induction xs) auto

lemma getLeaf_state:
  "mapInfo_getLeaf lib mi k st = (x, st') \<Longrightarrow>
   st' = \<lparr>world = snd (GetLeaves (tc mi) (read_of lib mi k) (world st)),
          rpcs = rpcs st @ [GetLeavesCall (read_of lib mi k)]\<rparr>"
  by (auto simp: mapInfo_getLeaf_def call_GetLeaves_def read_of_def Let_def
      split: prod.splits sum.splits list.splits option.splits if_splits)

lemma get_eq_getLeaf: "mapInfo_get lib mi k st = mapInfo_getLeaf lib mi k st"
  by (auto simp: mapInfo_get_def split: prod.splits exec.splits sum.splits option.splits)

lemma get_state:
  "mapInfo_get lib mi k st = (x, st') \<Longrightarrow>
   st' = \<lparr>world = snd (GetLeaves (tc mi) (read_of lib mi k) (world st)),
          rpcs = rpcs st @ [GetLeavesCall (read_of lib mi k)]\<rparr>"
  using getLeaf_state by (simp add: get_eq_getLeaf)

lemma Leaf_observes:
  "observes lib leaf e t k i \<Longrightarrow>
   logScanner_Leaf lib mi leaf st = logScanner_Leaf_from_get lib mi e t k i st"
  by (auto simp: observes_def logScanner_Leaf_def entry_timestamp_def assert_string_def assert_map_def
      split: sum.splits option.splits)

lemma saveRecord_persisted:
  "json_Marshal lib r = Inr v \<Longrightarrow>
   persisted lib mi k r st (after_save (mapInfo_saveRecord lib mi k r st))"
  by (auto simp: persisted_def mapInfo_saveRecord_def call_SetLeaves_def write_of_def after_save_def
      Let_def split: prod.splits option.splits)

lemma createRecord_eq:
  "mapInfo_createRecord lib mi k e i st = mapInfo_saveRecord lib mi k \<lparr>Entry = e, Items = [i]\<rparr> st"
  by (simp add: mapInfo_createRecord_def)

lemma from_get_absent:
  "mapInfo_get lib mi k st = (Return (Inr None), st') \<Longrightarrow>
   logScanner_Leaf_from_get lib mi e t k i st =
     after_save (mapInfo_saveRecord lib mi k \<lparr>Entry = e, Items = [i]\<rparr> st')"
  by (simp add: logScanner_Leaf_from_get_def createRecord_eq)

lemma from_get_present:
  "mapInfo_get lib mi k st = (Return (Inr (Some cr)), st') \<Longrightarrow>
   entry_timestamp lib (Entry cr) = Some ct \<Longrightarrow>
   logScanner_Leaf_from_get lib mi e t k i st =
     (if t < ct then (Return None, st')
      else if ct < t then after_save (mapInfo_saveRecord lib mi k \<lparr>Entry = e, Items = [i]\<rparr> st')
      else after_save (mapInfo_saveRecord lib mi k (record_add cr i) st'))"
  by (auto simp: logScanner_Leaf_from_get_def createRecord_eq entry_timestamp_def
      split: option.splits sum.splits)

lemma record_add_Items:
  "Items (record_add r i) = (if i \<in> set (Items r) then Items r else Items r @ [i])"
  by (simp add: record_add_def add_loop_iff)

lemma record_add_Entry: "Entry (record_add r i) = Entry r"
  by (simp add: record_add_def)

lemma record_add_present: "i \<in> set (Items r) \<Longrightarrow> record_add r i = r"
  by (simp add: record_add_def add_loop_iff)

lemma foldl_record_add_Items:
  "Items (foldl record_add \<lparr>Entry = e, Items = []\<rparr> xs) = rev (remdups (rev xs))"
proof (induction xs rule: rev_induct)
  case Nil
  show ?case by simp
next
  case (snoc x xs)
  have "set (rev (remdups (rev xs))) = set xs" by simp
  with snoc show ?case by (simp add: record_add_Items)
qed

lemma persisted_after_save:
  "after_save (mapInfo_saveRecord lib mi k r st') = (Return None, st'') \<Longrightarrow>
   persisted lib mi k r st' (Return None, st'')"
  by (auto simp: persisted_def mapInfo_saveRecord_def call_SetLeaves_def write_of_def after_save_def
      Let_def split: prod.splits option.splits sum.splits)

subsection \<open>The scanner on the in-memory map\<close>

lemmas mem_defs = mem_info_def mem_client_def mem_SetLeaves_def write_of_def read_of_def

lemma mem_get:
  "mapInfo_get lib (mem_info n) k st =
     (let v = (case world st (sha256_Sum256 lib k) of None \<Rightarrow> [] | Some v \<Rightarrow> v);
          st' = \<lparr>world = world st, rpcs = rpcs st @ [GetLeavesCall (read_of lib (mem_info n) k)]\<rparr>
      in if v = [] then (Return (Inr None), st')
         else (case json_Unmarshal_record lib v of
                 Inl err \<Rightarrow> (Return (Inl err), st')
               | Inr r \<Rightarrow> (Return (Inr (Some r)), st')))"
  by (simp add: get_eq_getLeaf mapInfo_getLeaf_def call_GetLeaves_def mem_info_def mem_client_def
      mem_GetLeaves_def read_of_def Let_def split: sum.splits)

lemma mem_save:
  "mapInfo_saveRecord lib (mem_info n) k r st =
     (case json_Marshal lib r of
        Inl err \<Rightarrow> (Fatal, st)
      | Inr v \<Rightarrow>
          (Return (),
           \<lparr>world = (world st)(sha256_Sum256 lib k \<mapsto> v),
            rpcs = rpcs st @ [SetLeavesCall (write_of lib (mem_info n) k v)]\<rparr>))"
  by (simp add: mapInfo_saveRecord_def call_SetLeaves_def mem_defs Let_def split: sum.splits)

lemma observes_fun:
  "observes lib leaf e t k i \<Longrightarrow> observes lib leaf e' t' k' i' \<Longrightarrow>
   e' = e \<and> t' = t \<and> k' = k \<and> i' = i"
  by (auto simp: observes_def split: sum.splits)

lemma Leaf_nil_observes:
  assumes "logScanner_Leaf lib mi leaf st = (Return None, st')"
  shows "\<exists>e t k i. observes lib leaf e t k i \<and>
           logScanner_Leaf_from_get lib mi e t k i st = (Return None, st')"
proof -
  from assms obtain l e ts t k i where
    "json_Unmarshal_map lib (LogLeaf_LeafValue leaf) = Inr l"
    "index_map l ''Entry'' = IMap e" "index_map e ''entry-timestamp'' = IString ts"
    "time_Parse lib ts = Inr t" "index_map e ''key'' = IString k" "index_map l ''Item'' = IMap i"
    "logScanner_Leaf_from_get lib mi e t k i st = (Return None, st')"
    by (auto simp: logScanner_Leaf_def assert_string_def assert_map_def
        split: sum.splits option.splits iface.splits)
  then have "observes lib leaf e t k i \<and>
      logScanner_Leaf_from_get lib mi e t k i st = (Return None, st')"
    by (simp add: observes_def entry_timestamp_def assert_string_def)
  then show ?thesis by blast
qed

lemma from_get_mem_nil:
  assumes "logScanner_Leaf_from_get lib (mem_info n) e t k i st = (Return None, st')"
  shows "reconciled lib e t k i (world st) (world st')"
  using assms
  by (auto simp: logScanner_Leaf_from_get_def mem_get mem_save createRecord_eq after_save_def
      entry_timestamp_def Let_def reconciled_def
      split: sum.splits option.splits if_splits)

subsection \<open>Replaying a log: what a run leaves behind\<close>

lemma Leaf_mem_nil:
  assumes "logScanner_Leaf lib (mem_info n) leaf st = (Return None, st')"
  obtains e t k i where "observes lib leaf e t k i"
    and "reconciled lib e t k i (world st) (world st')"
  using Leaf_nil_observes [OF assms] from_get_mem_nil by blast

lemma observes_timestamp: "observes lib leaf e t k i \<Longrightarrow> entry_timestamp lib e = Some t"
  by (auto simp: observes_def split: sum.splits)

lemma absorbedI:
  "observes lib leaf e t k i \<Longrightarrow> w (sha256_Sum256 lib k) = Some v \<Longrightarrow> v \<noteq> [] \<Longrightarrow>
   json_Unmarshal_record lib v = Inr cr \<Longrightarrow> entry_timestamp lib (Entry cr) = Some ct \<Longrightarrow>
   t < ct \<or> t = ct \<and> i \<in> set (Items cr) \<and> json_Marshal lib cr = Inr v \<Longrightarrow>
   absorbed lib w leaf"
  unfolding absorbed_def by blast

lemma Leaf_absorbs:
  assumes rt: "roundtrips lib"
    and ok: "logScanner_Leaf lib (mem_info n) leaf st = (Return None, st')"
  shows "absorbed lib (world st') leaf"
proof -
  from ok obtain e t k i where o: "observes lib leaf e t k i"
    and c0: "reconciled lib e t k i (world st) (world st')"
    by (rule Leaf_mem_nil)
  note c = c0 [unfolded reconciled_def]
  note ts = observes_timestamp [OF o]
  have fresh_rec: "absorbed lib (world st') leaf"
    if m: "json_Marshal lib \<lparr>Entry = e, Items = [i]\<rparr> = Inr v"
      and w: "world st' = (world st)(sha256_Sum256 lib k \<mapsto> v)" for v
  proof -
    from rt m have "v \<noteq> []" "json_Unmarshal_record lib v = Inr \<lparr>Entry = e, Items = [i]\<rparr>"
      by (auto simp: roundtrips_def)
    with o w m ts show ?thesis
      by (intro absorbedI [where v = v and cr = "\<lparr>Entry = e, Items = [i]\<rparr>" and ct = t]) auto
  qed
  from c show ?thesis
  proof (elim disjE conjE exE)
    fix v assume "json_Marshal lib \<lparr>Entry = e, Items = [i]\<rparr> = Inr v"
      "world st' = (world st)(sha256_Sum256 lib k \<mapsto> v)"
    then show ?thesis by (rule fresh_rec)
  next
    fix v0 cr ct
    assume "world st (sha256_Sum256 lib k) = Some v0" "v0 \<noteq> []"
      "json_Unmarshal_record lib v0 = Inr cr" "entry_timestamp lib (Entry cr) = Some ct"
      "t < ct" "world st' = world st"
    with o show ?thesis
      by (intro absorbedI [where v = v0 and cr = cr and ct = ct]) auto
  next
    fix v0 cr ct v
    assume "json_Marshal lib \<lparr>Entry = e, Items = [i]\<rparr> = Inr v"
      "world st' = (world st)(sha256_Sum256 lib k \<mapsto> v)"
    then show ?thesis by (rule fresh_rec)
  next
    fix v0 cr ct v
    assume cr: "entry_timestamp lib (Entry cr) = Some ct" and eq: "t = ct"
      and m: "json_Marshal lib (record_add cr i) = Inr v"
      and w: "world st' = (world st)(sha256_Sum256 lib k \<mapsto> v)"
    from rt m have "v \<noteq> []" "json_Unmarshal_record lib v = Inr (record_add cr i)"
      by (auto simp: roundtrips_def)
    with o w m cr eq show ?thesis
      by (intro absorbedI [where v = v and cr = "record_add cr i" and ct = ct])
         (auto simp: record_add_Entry record_add_Items)
  qed
qed

lemma Leaf_keeps_absorbed:
  assumes rt: "roundtrips lib"
    and ab: "absorbed lib (world st) other"
    and ok: "logScanner_Leaf lib (mem_info n) leaf st = (Return None, st')"
  shows "absorbed lib (world st') other"
proof -
  from ab obtain e' t' k' i' v' cr' ct' where o': "observes lib other e' t' k' i'"
    and s': "world st (sha256_Sum256 lib k') = Some v'" "v' \<noteq> []"
      "json_Unmarshal_record lib v' = Inr cr'" "entry_timestamp lib (Entry cr') = Some ct'"
    and a': "t' < ct' \<or> t' = ct' \<and> i' \<in> set (Items cr') \<and> json_Marshal lib cr' = Inr v'"
    unfolding absorbed_def by blast
  from ok obtain e t k i where o: "observes lib leaf e t k i"
    and c0: "reconciled lib e t k i (world st) (world st')"
    by (rule Leaf_mem_nil)
  note c = c0 [unfolded reconciled_def]
  note ts = observes_timestamp [OF o]
  show ?thesis
  proof (cases "sha256_Sum256 lib k' = sha256_Sum256 lib k")
    case False
    have "world st' (sha256_Sum256 lib k') = world st (sha256_Sum256 lib k')"
      using c False by auto
    with o' s' a' show ?thesis
      by (intro absorbedI [where v = v' and cr = cr' and ct = ct']) auto
  next
    case True
    with s' c have "\<exists>v0 cr ct.
            world st (sha256_Sum256 lib k) = Some v0 \<and> v0 \<noteq> [] \<and>
            json_Unmarshal_record lib v0 = Inr cr \<and> entry_timestamp lib (Entry cr) = Some ct \<and>
            (t < ct \<and> world st' = world st \<or>
             ct < t \<and> (\<exists>v. json_Marshal lib \<lparr>Entry = e, Items = [i]\<rparr> = Inr v \<and>
                          world st' = (world st)(sha256_Sum256 lib k \<mapsto> v)) \<or>
             t = ct \<and> (\<exists>v. json_Marshal lib (record_add cr i) = Inr v \<and>
                          world st' = (world st)(sha256_Sum256 lib k \<mapsto> v)))"
      by auto
    with True s' have d: "t < ct' \<and> world st' = world st \<or>
             ct' < t \<and> (\<exists>v. json_Marshal lib \<lparr>Entry = e, Items = [i]\<rparr> = Inr v \<and>
                          world st' = (world st)(sha256_Sum256 lib k \<mapsto> v)) \<or>
             t = ct' \<and> (\<exists>v. json_Marshal lib (record_add cr' i) = Inr v \<and>
                          world st' = (world st)(sha256_Sum256 lib k \<mapsto> v))"
      by auto
    then show ?thesis
    proof (elim disjE conjE exE)
      assume "world st' = world st"
      with o' s' a' show ?thesis
        by (intro absorbedI [where v = v' and cr = cr' and ct = ct']) auto
    next
      fix v assume lt: "ct' < t" and m: "json_Marshal lib \<lparr>Entry = e, Items = [i]\<rparr> = Inr v"
        and w: "world st' = (world st)(sha256_Sum256 lib k \<mapsto> v)"
      from rt m have "v \<noteq> []" "json_Unmarshal_record lib v = Inr \<lparr>Entry = e, Items = [i]\<rparr>"
        by (auto simp: roundtrips_def)
      with o' w True ts lt a' show ?thesis
        by (intro absorbedI [where v = v and cr = "\<lparr>Entry = e, Items = [i]\<rparr>" and ct = t]) auto
    next
      fix v assume eq: "t = ct'" and m: "json_Marshal lib (record_add cr' i) = Inr v"
        and w: "world st' = (world st)(sha256_Sum256 lib k \<mapsto> v)"
      from rt m have "v \<noteq> []" "json_Unmarshal_record lib v = Inr (record_add cr' i)"
        by (auto simp: roundtrips_def)
      with o' w True s' m a' show ?thesis
        by (intro absorbedI [where v = v and cr = "record_add cr' i" and ct = ct'])
           (auto simp: record_add_Entry record_add_Items record_add_present)
    qed
  qed
qed

lemma Leaf_of_absorbed:
  assumes "absorbed lib (world st) leaf"
  shows "fst (logScanner_Leaf lib (mem_info n) leaf st) = Return None \<and>
         world (snd (logScanner_Leaf lib (mem_info n) leaf st)) = world st"
proof -
  from assms obtain e t k i v cr ct where o: "observes lib leaf e t k i"
    and s: "world st (sha256_Sum256 lib k) = Some v" "v \<noteq> []"
      "json_Unmarshal_record lib v = Inr cr" "entry_timestamp lib (Entry cr) = Some ct"
    and a: "t < ct \<or> t = ct \<and> i \<in> set (Items cr) \<and> json_Marshal lib cr = Inr v"
    unfolding absorbed_def by blast
  have g: "mapInfo_get lib (mem_info n) k st =
      (Return (Inr (Some cr)),
       \<lparr>world = world st, rpcs = rpcs st @ [GetLeavesCall (read_of lib (mem_info n) k)]\<rparr>)"
    using s by (simp add: mem_get)
  from a show ?thesis
  proof
    assume "t < ct"
    then show ?thesis
      by (simp add: Leaf_observes [OF o] from_get_present [OF g s(4)])
  next
    assume b: "t = ct \<and> i \<in> set (Items cr) \<and> json_Marshal lib cr = Inr v"
    then have "record_add cr i = cr" by (simp add: record_add_present)
    with b s(1) show ?thesis
      by (simp add: Leaf_observes [OF o] from_get_present [OF g s(4)] mem_save after_save_def
          fun_upd_idem)
  qed
qed

lemma Scan_keeps_absorbed:
  "roundtrips lib \<Longrightarrow> absorbed lib (world st) other \<Longrightarrow>
   Scan lib (mem_info n) leaves st = (Return None, st') \<Longrightarrow> absorbed lib (world st') other"
proof (induction leaves arbitrary: st)
  case Nil
  then show ?case by simp
next
  case (Cons leaf rest)
  from Cons.prems(3) obtain st1 where
    l: "logScanner_Leaf lib (mem_info n) leaf st = (Return None, st1)"
    and r: "Scan lib (mem_info n) rest st1 = (Return None, st')"
    by (auto split: prod.splits exec.splits option.splits)
  from Leaf_keeps_absorbed [OF Cons.prems(1,2) l] have "absorbed lib (world st1) other" .
  from Cons.IH [OF Cons.prems(1) this r] show ?case .
qed

lemma Scan_absorbs:
  "roundtrips lib \<Longrightarrow> Scan lib (mem_info n) leaves st = (Return None, st') \<Longrightarrow>
   leaf \<in> set leaves \<Longrightarrow> absorbed lib (world st') leaf"
proof (induction leaves arbitrary: st)
  case Nil
  then show ?case by simp
next
  case (Cons x rest)
  from Cons.prems(2) obtain st1 where
    l: "logScanner_Leaf lib (mem_info n) x st = (Return None, st1)"
    and r: "Scan lib (mem_info n) rest st1 = (Return None, st')"
    by (auto split: prod.splits exec.splits option.splits)
  show ?case
  proof (cases "leaf = x")
    case True
    from Leaf_absorbs [OF Cons.prems(1) l] have "absorbed lib (world st1) x" .
    from Scan_keeps_absorbed [OF Cons.prems(1) this r] True show ?thesis by simp
  next
    case False
    with Cons.prems(3) have "leaf \<in> set rest" by simp
    from Cons.IH [OF Cons.prems(1) r this] show ?thesis .
  qed
qed

lemma Scan_of_absorbed:
  "\<forall>leaf \<in> set leaves. absorbed lib (world st) leaf \<Longrightarrow>
   fst (Scan lib (mem_info n) leaves st) = Return None \<and>
   world (snd (Scan lib (mem_info n) leaves st)) = world st"
proof (induction leaves arbitrary: st)
  case Nil
  then show ?case by simp
next
  case (Cons x rest)
  obtain r st1 where l: "logScanner_Leaf lib (mem_info n) x st = (r, st1)"
    by (cases "logScanner_Leaf lib (mem_info n) x st")
  from Cons.prems have "absorbed lib (world st) x" by simp
  from Leaf_of_absorbed [OF this, of n] l have r: "r = Return None" and w: "world st1 = world st"
    by simp_all
  from Cons.prems w have "\<forall>leaf \<in> set rest. absorbed lib (world st1) leaf" by simp
  from Cons.IH [OF this] l r w show ?case by simp
qed

subsection \<open>The example world\<close>

lemma index_example_entry [simp]:
  "index_map (example_entry ts) ''key'' = IString ''k1''"
  "index_map (example_entry ts) ''entry-timestamp'' = IString ts"
  by (simp_all add: index_map_def example_entry_def)

lemma index_example_payload [simp]:
  "index_map (example_payload e i) ''Entry'' = IMap e"
  "index_map (example_payload e i) ''Item'' = IMap i"
  by (simp_all add: index_map_def example_payload_def)

lemma index_entry_without_key [simp]:
  "index_map entry_without_key ''key'' = INil"
  "index_map entry_without_key ''entry-timestamp'' = IString ''2020-01-01T00:00:00Z''"
  by (simp_all add: index_map_def entry_without_key_def)

lemma example_entry_eq [simp]: "example_entry a = example_entry b \<longleftrightarrow> a = b"
proof
  assume "example_entry a = example_entry b"
  then have "index_map (example_entry a) ''entry-timestamp'' = index_map (example_entry b) ''entry-timestamp''"
    by simp
  then show "a = b" by simp
qed simp

lemma example_item_eq [simp]: "example_item a = example_item b \<longleftrightarrow> a = b"
proof
  assume "example_item a = example_item b"
  then have "index_map (example_item a) ''v'' = index_map (example_item b) ''v''"
    by simp
  then show "a = b" by (simp add: index_map_def example_item_def)
qed simp

lemmas example_defs = example_lib_def example_Unmarshal_map_def example_Parse_def
  example_Marshal_def example_Unmarshal_record_def record_2020_1_def record_2020_1_2_def
  record_2021_3_def leaf_of_def fresh_def

lemma index_entry_without_timestamp [simp]:
  "index_map entry_without_timestamp ''key'' = IString ''k1''"
  "index_map entry_without_timestamp ''entry-timestamp'' = INil"
  by (simp_all add: index_map_def entry_without_timestamp_def)

lemma observes_example:
  "observes example_lib (leaf_of ''leaf1'') (example_entry ''2020-01-01T00:00:00Z'') 1577836800 ''k1'' (example_item 1)"
  "observes example_lib (leaf_of ''leaf2'') (example_entry ''2020-01-01T00:00:00Z'') 1577836800 ''k1'' (example_item 2)"
  "observes example_lib (leaf_of ''leaf3'') (example_entry ''2019-01-01T00:00:00Z'') 1546300800 ''k1'' (example_item 99)"
  "observes example_lib (leaf_of ''leaf4'') (example_entry ''2021-01-01T00:00:00Z'') 1609459200 ''k1'' (example_item 3)"
  by (simp_all add: observes_def entry_timestamp_def assert_string_def example_defs)

lemma get_example:
  "mapInfo_get example_lib (mem_info n) ''k1'' (fresh [''sha256:k1'' \<mapsto> ''record-2020-1'']) =
     (Return (Inr (Some record_2020_1)),
      \<lparr>world = [''sha256:k1'' \<mapsto> ''record-2020-1''],
       rpcs = [GetLeavesCall (read_of example_lib (mem_info n) ''k1'')]\<rparr>)"
  "mapInfo_get example_lib (mem_info n) ''k1'' (fresh [''sha256:k1'' \<mapsto> ''record-2020-1-2'']) =
     (Return (Inr (Some record_2020_1_2)),
      \<lparr>world = [''sha256:k1'' \<mapsto> ''record-2020-1-2''],
       rpcs = [GetLeavesCall (read_of example_lib (mem_info n) ''k1'')]\<rparr>)"
  by (simp_all add: mem_get fresh_def example_lib_def example_Unmarshal_record_def)

lemma timestamp_example:
  "entry_timestamp example_lib (Entry record_2020_1) = Some 1577836800"
  "entry_timestamp example_lib (Entry record_2020_1_2) = Some 1577836800"
  by (simp_all add: entry_timestamp_def assert_string_def example_defs)

lemma roundtrips_example: "roundtrips example_lib"
  by (auto simp: roundtrips_def example_lib_def example_Marshal_def example_Unmarshal_record_def
      split: if_splits)

lemmas run_defs = logScanner_Leaf_def logScanner_Leaf_from_get_def mem_get mem_save createRecord_eq
  after_save_def assert_string_def assert_map_def record_add_def Let_def

lemma Scan_example:
  "Scan example_lib (mem_info 7) example_log (fresh Map.empty) =
     (Return None,
      \<lparr>world = [''sha256:k1'' \<mapsto> ''record-2021-3''],
       rpcs = [GetLeavesCall (read_of example_lib (mem_info 7) ''k1''),
               SetLeavesCall (write_of example_lib (mem_info 7) ''k1'' ''record-2020-1''),
               GetLeavesCall (read_of example_lib (mem_info 7) ''k1''),
               SetLeavesCall (write_of example_lib (mem_info 7) ''k1'' ''record-2020-1-2''),
               GetLeavesCall (read_of example_lib (mem_info 7) ''k1''),
               GetLeavesCall (read_of example_lib (mem_info 7) ''k1''),
               SetLeavesCall (write_of example_lib (mem_info 7) ''k1'' ''record-2021-3'')]\<rparr>)"
  by (simp add: example_log_def run_defs example_defs)

subsection \<open>The four branches of the reconciliation\<close>

text \<open>
  C4 (create). When \<^verbatim>\<open>get\<close> reports no record for the key of a well-formed observation,
  \<^verbatim>\<open>Leaf\<close> persists the record made of the observed entry and of the observed item alone:
  one \<^verbatim>\<open>SetLeaves\<close> call carries its serialisation to the index of the key. The record is
  one that \<^verbatim>\<open>json.Marshal\<close> accepts, as it accepts every decoded JSON value.
\<close>

theorem create_on_absent:
  assumes "observes lib leaf e t k i"
    and "mapInfo_get lib mi k st = (Return (Inr None), st')"
    and "json_Marshal lib \<lparr>Entry = e, Items = [i]\<rparr> = Inr v"
  shows "persisted lib mi k \<lparr>Entry = e, Items = [i]\<rparr> st' (logScanner_Leaf lib mi leaf st)"
  using assms by (simp add: Leaf_observes from_get_absent saveRecord_persisted)

theorem create_on_absent_witness:
  "observes example_lib (leaf_of ''leaf1'') (example_entry ''2020-01-01T00:00:00Z'') 1577836800 ''k1''
     (example_item 1) \<and>
   mapInfo_get example_lib (mem_info 7) ''k1'' (fresh Map.empty) =
     (Return (Inr None),
      \<lparr>world = Map.empty, rpcs = [GetLeavesCall (read_of example_lib (mem_info 7) ''k1'')]\<rparr>) \<and>
   json_Marshal example_lib \<lparr>Entry = example_entry ''2020-01-01T00:00:00Z'', Items = [example_item 1]\<rparr>
     = Inr ''record-2020-1'' \<and>
   logScanner_Leaf example_lib (mem_info 7) (leaf_of ''leaf1'') (fresh Map.empty) =
     (Return None,
      \<lparr>world = [''sha256:k1'' \<mapsto> ''record-2020-1''],
       rpcs = [GetLeavesCall (read_of example_lib (mem_info 7) ''k1''),
               SetLeavesCall (write_of example_lib (mem_info 7) ''k1'' ''record-2020-1'')]\<rparr>)"
proof -
  have o: "observes example_lib (leaf_of ''leaf1'') (example_entry ''2020-01-01T00:00:00Z'') 1577836800 ''k1''
     (example_item 1)"
    by (simp add: observes_def entry_timestamp_def assert_string_def example_defs)
  have g: "mapInfo_get example_lib (mem_info 7) ''k1'' (fresh Map.empty) =
     (Return (Inr None),
      \<lparr>world = Map.empty, rpcs = [GetLeavesCall (read_of example_lib (mem_info 7) ''k1'')]\<rparr>)"
    by (simp add: mem_get fresh_def)
  have m: "json_Marshal example_lib \<lparr>Entry = example_entry ''2020-01-01T00:00:00Z'', Items = [example_item 1]\<rparr>
     = Inr ''record-2020-1''"
    by (simp add: example_defs)
  show ?thesis
    using o g m create_on_absent [OF o g m]
    by (cases "logScanner_Leaf example_lib (mem_info 7) (leaf_of ''leaf1'') (fresh Map.empty)")
       (simp add: persisted_def write_of_def mem_info_def mem_client_def mem_SetLeaves_def example_lib_def)
qed

text \<open>
  C2 (stale). When the stored record's timestamp is strictly later than the
  observation's, \<^verbatim>\<open>Leaf\<close> returns nil and the only call it has issued is the read of
  \<^verbatim>\<open>get\<close>: no \<^verbatim>\<open>SetLeaves\<close> call, and the map service is where the read left it.
\<close>

theorem stale_is_noop:
  assumes "observes lib leaf e t k i"
    and "mapInfo_get lib mi k st = (Return (Inr (Some cr)), st')"
    and "entry_timestamp lib (Entry cr) = Some ct"
    and "t < ct"
  shows "logScanner_Leaf lib mi leaf st =
           (Return None,
            \<lparr>world = snd (GetLeaves (tc mi) (read_of lib mi k) (world st)),
             rpcs = rpcs st @ [GetLeavesCall (read_of lib mi k)]\<rparr>)"
  using assms get_state [OF assms(2)] by (simp add: Leaf_observes from_get_present)

theorem stale_is_noop_witness:
  "observes example_lib (leaf_of ''leaf3'') (example_entry ''2019-01-01T00:00:00Z'') 1546300800 ''k1''
     (example_item 99) \<and>
   mapInfo_get example_lib (mem_info 7) ''k1'' (fresh [''sha256:k1'' \<mapsto> ''record-2020-1'']) =
     (Return (Inr (Some record_2020_1)),
      \<lparr>world = [''sha256:k1'' \<mapsto> ''record-2020-1''],
       rpcs = [GetLeavesCall (read_of example_lib (mem_info 7) ''k1'')]\<rparr>) \<and>
   entry_timestamp example_lib (Entry record_2020_1) = Some 1577836800 \<and>
   (1546300800 :: int) < 1577836800 \<and>
   logScanner_Leaf example_lib (mem_info 7) (leaf_of ''leaf3'')
       (fresh [''sha256:k1'' \<mapsto> ''record-2020-1'']) =
     (Return None,
      \<lparr>world = [''sha256:k1'' \<mapsto> ''record-2020-1''],
       rpcs = [GetLeavesCall (read_of example_lib (mem_info 7) ''k1'')]\<rparr>)"
proof -
  have lt: "(1546300800 :: int) < 1577836800" by simp
  show ?thesis
    using stale_is_noop [OF observes_example(3) get_example(1) [of 7] timestamp_example(1) lt]
      observes_example(3) get_example(1) [of 7] timestamp_example(1)
    by (simp add: fresh_def mem_info_def mem_client_def mem_GetLeaves_def)
qed

text \<open>
  C3 (replace). When the stored record's timestamp is strictly earlier than the
  observation's, \<^verbatim>\<open>Leaf\<close> persists the record made of the observed entry and of the
  observed item alone, whatever items the stored record held.
\<close>

theorem replace_on_newer:
  assumes "observes lib leaf e t k i"
    and "mapInfo_get lib mi k st = (Return (Inr (Some cr)), st')"
    and "entry_timestamp lib (Entry cr) = Some ct"
    and "ct < t"
    and "json_Marshal lib \<lparr>Entry = e, Items = [i]\<rparr> = Inr v"
  shows "persisted lib mi k \<lparr>Entry = e, Items = [i]\<rparr> st' (logScanner_Leaf lib mi leaf st)"
  using assms by (simp add: Leaf_observes from_get_present saveRecord_persisted)

theorem replace_on_newer_witness:
  "observes example_lib (leaf_of ''leaf4'') (example_entry ''2021-01-01T00:00:00Z'') 1609459200 ''k1''
     (example_item 3) \<and>
   mapInfo_get example_lib (mem_info 7) ''k1'' (fresh [''sha256:k1'' \<mapsto> ''record-2020-1-2'']) =
     (Return (Inr (Some record_2020_1_2)),
      \<lparr>world = [''sha256:k1'' \<mapsto> ''record-2020-1-2''],
       rpcs = [GetLeavesCall (read_of example_lib (mem_info 7) ''k1'')]\<rparr>) \<and>
   entry_timestamp example_lib (Entry record_2020_1_2) = Some 1577836800 \<and>
   (1577836800 :: int) < 1609459200 \<and>
   json_Marshal example_lib \<lparr>Entry = example_entry ''2021-01-01T00:00:00Z'', Items = [example_item 3]\<rparr>
     = Inr ''record-2021-3'' \<and>
   logScanner_Leaf example_lib (mem_info 7) (leaf_of ''leaf4'')
       (fresh [''sha256:k1'' \<mapsto> ''record-2020-1-2'']) =
     (Return None,
      \<lparr>world = [''sha256:k1'' \<mapsto> ''record-2021-3''],
       rpcs = [GetLeavesCall (read_of example_lib (mem_info 7) ''k1''),
               SetLeavesCall (write_of example_lib (mem_info 7) ''k1'' ''record-2021-3'')]\<rparr>)"
proof -
  have lt: "(1577836800 :: int) < 1609459200" by simp
  have m: "json_Marshal example_lib \<lparr>Entry = example_entry ''2021-01-01T00:00:00Z'', Items = [example_item 3]\<rparr>
     = Inr ''record-2021-3''"
    by (simp add: example_defs)
  show ?thesis
    using replace_on_newer [OF observes_example(4) get_example(2) [of 7] timestamp_example(2) lt m]
      observes_example(4) get_example(2) [of 7] timestamp_example(2) m
    by (cases "logScanner_Leaf example_lib (mem_info 7) (leaf_of ''leaf4'')
                 (fresh [''sha256:k1'' \<mapsto> ''record-2020-1-2''])")
       (simp add: persisted_def mem_defs example_lib_def)
qed

text \<open>
  C1 (merge). When the stored record's timestamp equals the observation's, \<^verbatim>\<open>Leaf\<close>
  persists the stored record with its entry unchanged and with the observed item appended
  unless an equal item is already among its items. In particular a stored record that
  holds the one item \<open>a\<close> ends as \<open>[a, i]\<close> when \<open>i\<close> differs from \<open>a\<close> and as \<open>[a]\<close> when
  \<open>i\<close> is \<open>a\<close>.
\<close>

theorem merge_on_equal:
  assumes "observes lib leaf e t k i"
    and "mapInfo_get lib mi k st = (Return (Inr (Some cr)), st')"
    and "entry_timestamp lib (Entry cr) = Some t"
    and "json_Marshal lib (record_add cr i) = Inr v"
  shows "persisted lib mi k (record_add cr i) st' (logScanner_Leaf lib mi leaf st) \<and>
         Entry (record_add cr i) = Entry cr \<and>
         Items (record_add cr i) = (if i \<in> set (Items cr) then Items cr else Items cr @ [i]) \<and>
         (\<forall>a. Items cr = [a] \<longrightarrow> Items (record_add cr i) = (if i = a then [a] else [a, i]))"
  using assms
  by (simp add: Leaf_observes from_get_present saveRecord_persisted record_add_Items record_add_Entry)

theorem merge_on_equal_witness:
  "observes example_lib (leaf_of ''leaf2'') (example_entry ''2020-01-01T00:00:00Z'') 1577836800 ''k1''
     (example_item 2) \<and>
   observes example_lib (leaf_of ''leaf1'') (example_entry ''2020-01-01T00:00:00Z'') 1577836800 ''k1''
     (example_item 1) \<and>
   mapInfo_get example_lib (mem_info 7) ''k1'' (fresh [''sha256:k1'' \<mapsto> ''record-2020-1'']) =
     (Return (Inr (Some record_2020_1)),
      \<lparr>world = [''sha256:k1'' \<mapsto> ''record-2020-1''],
       rpcs = [GetLeavesCall (read_of example_lib (mem_info 7) ''k1'')]\<rparr>) \<and>
   entry_timestamp example_lib (Entry record_2020_1) = Some 1577836800 \<and>
   Items record_2020_1 = [example_item 1] \<and>
   json_Marshal example_lib (record_add record_2020_1 (example_item 2)) = Inr ''record-2020-1-2'' \<and>
   json_Marshal example_lib (record_add record_2020_1 (example_item 1)) = Inr ''record-2020-1'' \<and>
   Items (record_add record_2020_1 (example_item 2)) = [example_item 1, example_item 2] \<and>
   Items (record_add record_2020_1 (example_item 1)) = [example_item 1] \<and>
   logScanner_Leaf example_lib (mem_info 7) (leaf_of ''leaf2'')
       (fresh [''sha256:k1'' \<mapsto> ''record-2020-1'']) =
     (Return None,
      \<lparr>world = [''sha256:k1'' \<mapsto> ''record-2020-1-2''],
       rpcs = [GetLeavesCall (read_of example_lib (mem_info 7) ''k1''),
               SetLeavesCall (write_of example_lib (mem_info 7) ''k1'' ''record-2020-1-2'')]\<rparr>) \<and>
   logScanner_Leaf example_lib (mem_info 7) (leaf_of ''leaf1'')
       (fresh [''sha256:k1'' \<mapsto> ''record-2020-1'']) =
     (Return None,
      \<lparr>world = [''sha256:k1'' \<mapsto> ''record-2020-1''],
       rpcs = [GetLeavesCall (read_of example_lib (mem_info 7) ''k1''),
               SetLeavesCall (write_of example_lib (mem_info 7) ''k1'' ''record-2020-1'')]\<rparr>)"
proof -
  have m2: "json_Marshal example_lib (record_add record_2020_1 (example_item 2)) = Inr ''record-2020-1-2''"
    by (simp add: example_defs record_add_def)
  have m1: "json_Marshal example_lib (record_add record_2020_1 (example_item 1)) = Inr ''record-2020-1''"
    by (simp add: example_defs record_add_def)
  have i: "Items record_2020_1 = [example_item 1]"
    by (simp add: record_2020_1_def)
  note a = merge_on_equal [OF observes_example(2) get_example(1) [of 7] timestamp_example(1) m2]
  note b = merge_on_equal [OF observes_example(1) get_example(1) [of 7] timestamp_example(1) m1]
  have ra: "Items (record_add record_2020_1 (example_item 2)) = [example_item 1, example_item 2]"
    using a i by simp
  have rb: "Items (record_add record_2020_1 (example_item 1)) = [example_item 1]"
    using b i by simp
  have la: "logScanner_Leaf example_lib (mem_info 7) (leaf_of ''leaf2'')
       (fresh [''sha256:k1'' \<mapsto> ''record-2020-1'']) =
     (Return None,
      \<lparr>world = [''sha256:k1'' \<mapsto> ''record-2020-1-2''],
       rpcs = [GetLeavesCall (read_of example_lib (mem_info 7) ''k1''),
               SetLeavesCall (write_of example_lib (mem_info 7) ''k1'' ''record-2020-1-2'')]\<rparr>)"
    using a m2
    by (cases "logScanner_Leaf example_lib (mem_info 7) (leaf_of ''leaf2'')
                 (fresh [''sha256:k1'' \<mapsto> ''record-2020-1''])")
       (simp add: persisted_def mem_defs example_lib_def)
  have lb: "logScanner_Leaf example_lib (mem_info 7) (leaf_of ''leaf1'')
       (fresh [''sha256:k1'' \<mapsto> ''record-2020-1'']) =
     (Return None,
      \<lparr>world = [''sha256:k1'' \<mapsto> ''record-2020-1''],
       rpcs = [GetLeavesCall (read_of example_lib (mem_info 7) ''k1''),
               SetLeavesCall (write_of example_lib (mem_info 7) ''k1'' ''record-2020-1'')]\<rparr>)"
    using b m1
    by (cases "logScanner_Leaf example_lib (mem_info 7) (leaf_of ''leaf1'')
                 (fresh [''sha256:k1'' \<mapsto> ''record-2020-1''])")
       (simp add: persisted_def mem_defs example_lib_def)
  show ?thesis
    using observes_example(1,2) get_example(1) [of 7] timestamp_example(1) i m1 m2 ra rb la lb
    by simp
qed

text \<open>
  C6 (one write per branch). A well-formed observation that \<^verbatim>\<open>Leaf\<close> has processed,
  returning nil, has issued no write when it was stale (the state is the one \<^verbatim>\<open>get\<close>
  left) and exactly one \<^verbatim>\<open>SetLeaves\<close> call, with the computed record, in every other
  branch. The merge branch writes also when the item was already present and the record
  is the stored one.
\<close>

theorem one_write_per_branch:
  assumes "observes lib leaf e t k i"
    and "mapInfo_get lib mi k st = (Return (Inr cur), st')"
    and "logScanner_Leaf lib mi leaf st = (Return None, st'')"
  shows "case cur of
           None \<Rightarrow> persisted lib mi k \<lparr>Entry = e, Items = [i]\<rparr> st' (Return None, st'')
         | Some cr \<Rightarrow>
             (case entry_timestamp lib (Entry cr) of
                None \<Rightarrow> False
              | Some ct \<Rightarrow>
                  if t < ct then st'' = st'
                  else if ct < t then persisted lib mi k \<lparr>Entry = e, Items = [i]\<rparr> st' (Return None, st'')
                  else persisted lib mi k (record_add cr i) st' (Return None, st'') \<and>
                       (i \<in> set (Items cr) \<longrightarrow> record_add cr i = cr))"
proof (cases cur)
  case None
  with assms show ?thesis
    by (simp add: Leaf_observes from_get_absent persisted_after_save)
next
  case (Some cr)
  show ?thesis
  proof (cases "entry_timestamp lib (Entry cr)")
    case None
    with assms Some show ?thesis
      by (auto simp: Leaf_observes logScanner_Leaf_from_get_def entry_timestamp_def
          split: option.splits sum.splits)
  next
    case (Some ct)
    with assms \<open>cur = Some cr\<close> show ?thesis
      by (auto simp: Leaf_observes from_get_present persisted_after_save record_add_present
          split: if_splits)
  qed
qed

theorem one_write_per_branch_witness:
  "observes example_lib (leaf_of ''leaf1'') (example_entry ''2020-01-01T00:00:00Z'') 1577836800 ''k1''
     (example_item 1) \<and>
   mapInfo_get example_lib (mem_info 7) ''k1'' (fresh [''sha256:k1'' \<mapsto> ''record-2020-1'']) =
     (Return (Inr (Some record_2020_1)),
      \<lparr>world = [''sha256:k1'' \<mapsto> ''record-2020-1''],
       rpcs = [GetLeavesCall (read_of example_lib (mem_info 7) ''k1'')]\<rparr>) \<and>
   logScanner_Leaf example_lib (mem_info 7) (leaf_of ''leaf1'')
       (fresh [''sha256:k1'' \<mapsto> ''record-2020-1'']) =
     (Return None,
      \<lparr>world = [''sha256:k1'' \<mapsto> ''record-2020-1''],
       rpcs = [GetLeavesCall (read_of example_lib (mem_info 7) ''k1''),
               SetLeavesCall (write_of example_lib (mem_info 7) ''k1'' ''record-2020-1'')]\<rparr>) \<and>
   entry_timestamp example_lib (Entry record_2020_1) = Some 1577836800 \<and>
   example_item 1 \<in> set (Items record_2020_1) \<and>
   record_add record_2020_1 (example_item 1) = record_2020_1 \<and>
   persisted example_lib (mem_info 7) ''k1'' (record_add record_2020_1 (example_item 1))
     \<lparr>world = [''sha256:k1'' \<mapsto> ''record-2020-1''],
      rpcs = [GetLeavesCall (read_of example_lib (mem_info 7) ''k1'')]\<rparr>
     (Return None,
      \<lparr>world = [''sha256:k1'' \<mapsto> ''record-2020-1''],
       rpcs = [GetLeavesCall (read_of example_lib (mem_info 7) ''k1''),
               SetLeavesCall (write_of example_lib (mem_info 7) ''k1'' ''record-2020-1'')]\<rparr>)"
proof -
  have i: "example_item 1 \<in> set (Items record_2020_1)"
    by (simp add: record_2020_1_def)
  have l: "logScanner_Leaf example_lib (mem_info 7) (leaf_of ''leaf1'')
       (fresh [''sha256:k1'' \<mapsto> ''record-2020-1'']) =
     (Return None,
      \<lparr>world = [''sha256:k1'' \<mapsto> ''record-2020-1''],
       rpcs = [GetLeavesCall (read_of example_lib (mem_info 7) ''k1''),
               SetLeavesCall (write_of example_lib (mem_info 7) ''k1'' ''record-2020-1'')]\<rparr>)"
  proof -
    have "logScanner_Leaf example_lib (mem_info 7) (leaf_of ''leaf1'')
            (fresh [''sha256:k1'' \<mapsto> ''record-2020-1'']) =
          after_save (mapInfo_saveRecord example_lib (mem_info 7) ''k1'' record_2020_1
            \<lparr>world = [''sha256:k1'' \<mapsto> ''record-2020-1''],
             rpcs = [GetLeavesCall (read_of example_lib (mem_info 7) ''k1'')]\<rparr>)"
      by (simp add: Leaf_observes [OF observes_example(1)]
          from_get_present [OF get_example(1) timestamp_example(1)] record_add_present [OF i])
    also have "\<dots> = (Return None,
      \<lparr>world = [''sha256:k1'' \<mapsto> ''record-2020-1''],
       rpcs = [GetLeavesCall (read_of example_lib (mem_info 7) ''k1''),
               SetLeavesCall (write_of example_lib (mem_info 7) ''k1'' ''record-2020-1'')]\<rparr>)"
      by (simp add: mapInfo_saveRecord_def call_SetLeaves_def after_save_def
          example_lib_def example_Marshal_def mem_defs)
    finally show ?thesis .
  qed
  show ?thesis
    using one_write_per_branch [OF observes_example(1) get_example(1) [of 7] l]
      observes_example(1) get_example(1) [of 7] l timestamp_example(1) i
    by (simp add: record_add_present [OF i])
qed

subsection \<open>Items of a record\<close>

text \<open>
  C9 (distinct items). \<^verbatim>\<open>add\<close> keeps the items pairwise distinct, keeps the items it found
  as a prefix of the result, in their order, and adds exactly the new item to their set.
  Adding a sequence of items to an empty record leaves the first occurrence of each, in
  order of arrival. \<^verbatim>\<open>createRecord\<close>, the only other producer of a record, saves a
  record with one item.
\<close>

theorem items_pairwise_distinct:
  "(distinct (Items r) \<longrightarrow> distinct (Items (record_add r i))) \<and>
   prefix (Items r) (Items (record_add r i)) \<and>
   set (Items (record_add r i)) = insert i (set (Items r)) \<and>
   Items (foldl record_add \<lparr>Entry = e, Items = []\<rparr> xs) = rev (remdups (rev xs)) \<and>
   mapInfo_createRecord lib mi k e i st = mapInfo_saveRecord lib mi k \<lparr>Entry = e, Items = [i]\<rparr> st"
  by (auto simp: record_add_Items foldl_record_add_Items createRecord_eq)

theorem items_pairwise_distinct_witness:
  "distinct (Items record_2020_1) \<and>
   distinct (Items (record_add record_2020_1 (example_item 2))) \<and>
   Items (record_add record_2020_1 (example_item 2)) = [example_item 1, example_item 2] \<and>
   Items (record_add record_2020_1 (example_item 1)) = [example_item 1]"
proof -
  have d: "distinct (Items record_2020_1)"
    by (simp add: record_2020_1_def)
  have "distinct (Items (record_add record_2020_1 (example_item 2)))"
    using items_pairwise_distinct [THEN conjunct1, of record_2020_1 "example_item 2"] d by simp
  then show ?thesis
    using d by (simp add: record_add_Items record_2020_1_def)
qed

subsection \<open>Replaying a log\<close>

text \<open>
  C5 (idempotent replay). On the in-memory map, with a codec that reads back what it
  writes, for any log and any starting store: when scanning the log has succeeded,
  scanning the same log again from the store the first scan left succeeds and leaves
  that store as it is.
\<close>

theorem replay_is_idempotent:
  assumes "roundtrips lib"
    and "Scan lib (mem_info n) leaves st = (Return None, st1)"
  shows "fst (Scan lib (mem_info n) leaves st1) = Return None \<and>
         world (snd (Scan lib (mem_info n) leaves st1)) = world st1"
proof -
  have "\<forall>leaf \<in> set leaves. absorbed lib (world st1) leaf"
    using Scan_absorbs [OF assms] by blast
  then show ?thesis by (rule Scan_of_absorbed)
qed

theorem replay_is_idempotent_witness:
  "roundtrips example_lib \<and>
   Scan example_lib (mem_info 7) example_log (fresh Map.empty) =
     (Return None,
      \<lparr>world = [''sha256:k1'' \<mapsto> ''record-2021-3''],
       rpcs = [GetLeavesCall (read_of example_lib (mem_info 7) ''k1''),
               SetLeavesCall (write_of example_lib (mem_info 7) ''k1'' ''record-2020-1''),
               GetLeavesCall (read_of example_lib (mem_info 7) ''k1''),
               SetLeavesCall (write_of example_lib (mem_info 7) ''k1'' ''record-2020-1-2''),
               GetLeavesCall (read_of example_lib (mem_info 7) ''k1''),
               GetLeavesCall (read_of example_lib (mem_info 7) ''k1''),
               SetLeavesCall (write_of example_lib (mem_info 7) ''k1'' ''record-2021-3'')]\<rparr>) \<and>
   fst (Scan example_lib (mem_info 7) example_log
     \<lparr>world = [''sha256:k1'' \<mapsto> ''record-2021-3''],
       rpcs = [GetLeavesCall (read_of example_lib (mem_info 7) ''k1''),
               SetLeavesCall (write_of example_lib (mem_info 7) ''k1'' ''record-2020-1''),
               GetLeavesCall (read_of example_lib (mem_info 7) ''k1''),
               SetLeavesCall (write_of example_lib (mem_info 7) ''k1'' ''record-2020-1-2''),
               GetLeavesCall (read_of example_lib (mem_info 7) ''k1''),
               GetLeavesCall (read_of example_lib (mem_info 7) ''k1''),
               SetLeavesCall (write_of example_lib (mem_info 7) ''k1'' ''record-2021-3'')]\<rparr>) =
     Return None \<and>
   world (snd (Scan example_lib (mem_info 7) example_log
     \<lparr>world = [''sha256:k1'' \<mapsto> ''record-2021-3''],
       rpcs = [GetLeavesCall (read_of example_lib (mem_info 7) ''k1''),
               SetLeavesCall (write_of example_lib (mem_info 7) ''k1'' ''record-2020-1''),
               GetLeavesCall (read_of example_lib (mem_info 7) ''k1''),
               SetLeavesCall (write_of example_lib (mem_info 7) ''k1'' ''record-2020-1-2''),
               GetLeavesCall (read_of example_lib (mem_info 7) ''k1''),
               GetLeavesCall (read_of example_lib (mem_info 7) ''k1''),
               SetLeavesCall (write_of example_lib (mem_info 7) ''k1'' ''record-2021-3'')]\<rparr>)) =
     [''sha256:k1'' \<mapsto> ''record-2021-3'']"
  using replay_is_idempotent [OF roundtrips_example Scan_example] roundtrips_example Scan_example
  by simp

subsection \<open>Reading the store, and leaves that do not decode\<close>

text \<open>
  C7 (absent and empty). \<^verbatim>\<open>get\<close> returns \<^verbatim>\<open>(nil, nil)\<close> both for an index that was never
  written and for an index that holds a zero-length value: it does not tell them apart,
  as the comment at line 95 says it should.
\<close>

theorem get_conflates_unwritten_and_empty:
  "fst (mapInfo_get lib (mem_info n) k \<lparr>world = w(sha256_Sum256 lib k := None), rpcs = c\<rparr>) =
     Return (Inr None) \<and>
   fst (mapInfo_get lib (mem_info n) k \<lparr>world = w(sha256_Sum256 lib k \<mapsto> []), rpcs = c\<rparr>) =
     Return (Inr None)"
  by (simp add: mem_get)

text \<open>
  C8 (decode failures). \<^verbatim>\<open>Leaf\<close> returns the error of a payload that is not JSON and of
  a timestamp that does not parse. An entry without a string under \<^verbatim>\<open>entry-timestamp\<close>,
  or without one under \<^verbatim>\<open>key\<close>, makes it panic at the type assertion instead.
\<close>

theorem decode_failures:
  "(json_Unmarshal_map lib (LogLeaf_LeafValue leaf) = Inl err \<longrightarrow>
      logScanner_Leaf lib mi leaf st = (Return (Some err), st)) \<and>
   (json_Unmarshal_map lib (LogLeaf_LeafValue leaf) = Inr l \<and> index_map l ''Entry'' = IMap e \<and>
    index_map e ''entry-timestamp'' = IString ts \<and> time_Parse lib ts = Inl err \<longrightarrow>
      logScanner_Leaf lib mi leaf st = (Return (Some err), st)) \<and>
   (json_Unmarshal_map lib (LogLeaf_LeafValue leaf) = Inr l \<and> index_map l ''Entry'' = IMap e \<and>
    index_map e ''entry-timestamp'' = INil \<longrightarrow>
      logScanner_Leaf lib mi leaf st = (Panic InterfaceConversion, st)) \<and>
   (json_Unmarshal_map lib (LogLeaf_LeafValue leaf) = Inr l \<and> index_map l ''Entry'' = IMap e \<and>
    entry_timestamp lib e = Some t \<and> index_map e ''key'' = INil \<longrightarrow>
      logScanner_Leaf lib mi leaf st = (Panic InterfaceConversion, st))"
  by (auto simp: logScanner_Leaf_def entry_timestamp_def assert_string_def assert_map_def
      split: sum.splits option.splits iface.splits)

theorem decode_failures_witness:
  "json_Unmarshal_map example_lib (LogLeaf_LeafValue (leaf_of ''{'')) = Inl ''invalid character'' \<and>
   logScanner_Leaf example_lib (mem_info 7) (leaf_of ''{'') (fresh Map.empty) =
     (Return (Some ''invalid character''), fresh Map.empty) \<and>
   json_Unmarshal_map example_lib (LogLeaf_LeafValue (leaf_of ''leaf6'')) =
     Inr (example_payload (example_entry ''yesterday'') (example_item 6)) \<and>
   time_Parse example_lib ''yesterday'' = Inl ''cannot parse'' \<and>
   logScanner_Leaf example_lib (mem_info 7) (leaf_of ''leaf6'') (fresh Map.empty) =
     (Return (Some ''cannot parse''), fresh Map.empty) \<and>
   json_Unmarshal_map example_lib (LogLeaf_LeafValue (leaf_of ''leaf7'')) =
     Inr (example_payload entry_without_timestamp (example_item 7)) \<and>
   index_map entry_without_timestamp ''entry-timestamp'' = INil \<and>
   logScanner_Leaf example_lib (mem_info 7) (leaf_of ''leaf7'') (fresh Map.empty) =
     (Panic InterfaceConversion, fresh Map.empty) \<and>
   json_Unmarshal_map example_lib (LogLeaf_LeafValue (leaf_of ''leaf5'')) =
     Inr (example_payload entry_without_key (example_item 5)) \<and>
   entry_timestamp example_lib entry_without_key = Some 1577836800 \<and>
   index_map entry_without_key ''key'' = INil \<and>
   logScanner_Leaf example_lib (mem_info 7) (leaf_of ''leaf5'') (fresh Map.empty) =
     (Panic InterfaceConversion, fresh Map.empty)"
proof -
  have u0: "json_Unmarshal_map example_lib (LogLeaf_LeafValue (leaf_of ''{'')) = Inl ''invalid character''"
    by (simp add: example_defs)
  have u6: "json_Unmarshal_map example_lib (LogLeaf_LeafValue (leaf_of ''leaf6'')) =
     Inr (example_payload (example_entry ''yesterday'') (example_item 6))"
    by (simp add: example_defs)
  have p6: "time_Parse example_lib ''yesterday'' = Inl ''cannot parse''"
    by (simp add: example_defs)
  have u7: "json_Unmarshal_map example_lib (LogLeaf_LeafValue (leaf_of ''leaf7'')) =
     Inr (example_payload entry_without_timestamp (example_item 7))"
    by (simp add: example_defs)
  have u5: "json_Unmarshal_map example_lib (LogLeaf_LeafValue (leaf_of ''leaf5'')) =
     Inr (example_payload entry_without_key (example_item 5))"
    by (simp add: example_defs)
  have t5: "entry_timestamp example_lib entry_without_key = Some 1577836800"
    by (simp add: entry_timestamp_def assert_string_def example_defs)
  have r0: "logScanner_Leaf example_lib (mem_info 7) (leaf_of ''{'') (fresh Map.empty) =
     (Return (Some ''invalid character''), fresh Map.empty)"
    using decode_failures [where lib = example_lib and leaf = "leaf_of ''{''" and err = "''invalid character''"
          and mi = "mem_info 7" and st = "fresh Map.empty",
        THEN conjunct1] u0
    by simp
  have r6: "logScanner_Leaf example_lib (mem_info 7) (leaf_of ''leaf6'') (fresh Map.empty) =
     (Return (Some ''cannot parse''), fresh Map.empty)"
    using decode_failures [where lib = example_lib and leaf = "leaf_of ''leaf6''" and err = "''cannot parse''"
          and l = "example_payload (example_entry ''yesterday'') (example_item 6)"
          and e = "example_entry ''yesterday''" and ts = "''yesterday''"
          and mi = "mem_info 7" and st = "fresh Map.empty",
        THEN conjunct2, THEN conjunct1] u6 p6
    by simp
  have r7: "logScanner_Leaf example_lib (mem_info 7) (leaf_of ''leaf7'') (fresh Map.empty) =
     (Panic InterfaceConversion, fresh Map.empty)"
    using decode_failures [where lib = example_lib and leaf = "leaf_of ''leaf7''"
          and l = "example_payload entry_without_timestamp (example_item 7)"
          and e = entry_without_timestamp and mi = "mem_info 7" and st = "fresh Map.empty",
        THEN conjunct2, THEN conjunct2, THEN conjunct1] u7
    by simp
  have r5: "logScanner_Leaf example_lib (mem_info 7) (leaf_of ''leaf5'') (fresh Map.empty) =
     (Panic InterfaceConversion, fresh Map.empty)"
    using decode_failures [where lib = example_lib and leaf = "leaf_of ''leaf5''"
          and l = "example_payload entry_without_key (example_item 5)"
          and e = entry_without_key and t = 1577836800
          and mi = "mem_info 7" and st = "fresh Map.empty",
        THEN conjunct2, THEN conjunct2, THEN conjunct2] u5 t5
    by simp
  show ?thesis
    using u0 u6 p6 u7 u5 t5 r0 r6 r7 r5 by simp
qed

text \<open>
  C10 (empty response). When \<^verbatim>\<open>GetLeaves\<close> succeeds, \<^verbatim>\<open>getLeaf\<close> panics with an index
  out of range exactly when the response holds no inclusion; it returns no error then.
\<close>

theorem getLeaf_panics_on_empty_response:
  assumes "GetLeaves (tc mi) (read_of lib mi k) (world st) = (Inr resp, w')"
  shows "(MapLeafInclusion resp = [] \<longrightarrow>
            mapInfo_getLeaf lib mi k st =
              (Panic IndexOutOfRange,
               \<lparr>world = w', rpcs = rpcs st @ [GetLeavesCall (read_of lib mi k)]\<rparr>)) \<and>
         (MapLeafInclusion resp \<noteq> [] \<longrightarrow>
            fst (mapInfo_getLeaf lib mi k st) \<noteq> Panic IndexOutOfRange)"
  using assms
  by (auto simp: mapInfo_getLeaf_def call_GetLeaves_def read_of_def Let_def
      split: list.splits option.splits sum.splits)

theorem getLeaf_panics_on_empty_response_witness:
  "GetLeaves (tc \<lparr>mapID = 7, tc = silent_client\<rparr>)
     (read_of example_lib \<lparr>mapID = 7, tc = silent_client\<rparr> ''k1'') (world (fresh Map.empty)) =
     (Inr \<lparr>MapLeafInclusion = []\<rparr>, Map.empty) \<and>
   MapLeafInclusion \<lparr>MapLeafInclusion = []\<rparr> = [] \<and>
   mapInfo_getLeaf example_lib \<lparr>mapID = 7, tc = silent_client\<rparr> ''k1'' (fresh Map.empty) =
     (Panic IndexOutOfRange,
      \<lparr>world = Map.empty,
       rpcs = [GetLeavesCall (read_of example_lib \<lparr>mapID = 7, tc = silent_client\<rparr> ''k1'')]\<rparr>) \<and>
   GetLeaves (tc (mem_info 7)) (read_of example_lib (mem_info 7) ''k1'') (world (fresh Map.empty)) =
     (Inr \<lparr>MapLeafInclusion = [Some \<lparr>Leaf = Some \<lparr>Index = ''sha256:k1'', LeafValue = []\<rparr>\<rparr>]\<rparr>,
      Map.empty) \<and>
   MapLeafInclusion \<lparr>MapLeafInclusion = [Some \<lparr>Leaf = Some \<lparr>Index = ''sha256:k1'', LeafValue = []\<rparr>\<rparr>]\<rparr>
     \<noteq> [] \<and>
   fst (mapInfo_getLeaf example_lib (mem_info 7) ''k1'' (fresh Map.empty)) \<noteq> Panic IndexOutOfRange"
proof -
  have a: "GetLeaves (tc \<lparr>mapID = 7, tc = silent_client\<rparr>)
     (read_of example_lib \<lparr>mapID = 7, tc = silent_client\<rparr> ''k1'') (world (fresh Map.empty)) =
     (Inr \<lparr>MapLeafInclusion = []\<rparr>, Map.empty)"
    by (simp add: silent_client_def fresh_def)
  have b: "GetLeaves (tc (mem_info 7)) (read_of example_lib (mem_info 7) ''k1'') (world (fresh Map.empty)) =
     (Inr \<lparr>MapLeafInclusion = [Some \<lparr>Leaf = Some \<lparr>Index = ''sha256:k1'', LeafValue = []\<rparr>\<rparr>]\<rparr>,
      Map.empty)"
    by (simp add: mem_info_def mem_client_def mem_GetLeaves_def read_of_def fresh_def example_lib_def)
  show ?thesis
    using getLeaf_panics_on_empty_response [OF a] getLeaf_panics_on_empty_response [OF b] a b
    by (simp add: fresh_def)
qed

end
